theory Spec2Isabelle
  imports Complex_Main
begin

section \<open>Decoded messages and the Python operations applied to them\<close>

text \<open>
  The tester (\<^verbatim>\<open>src/websocket_tester.py\<close>) decodes every received text with
  \<^verbatim>\<open>json.loads\<close> and then inspects the decoded value with \<^verbatim>\<open>in\<close>, subscription,
  \<^verbatim>\<open>.get\<close> and arithmetic. A decoded value is one of Python's \<^verbatim>\<open>None\<close>, \<^verbatim>\<open>bool\<close>,
  number, \<^verbatim>\<open>str\<close>, \<^verbatim>\<open>list\<close> or \<^verbatim>\<open>dict\<close>. Numbers (Python \<^verbatim>\<open>int\<close> and \<^verbatim>\<open>float\<close>)
  are modelled as real numbers: rounding of floating-point arithmetic is not modelled, the
  comparisons the code makes are the comparisons of the model. A \<^verbatim>\<open>dict\<close> is an association
  list in insertion order, looked up with \<open>map_of\<close>.
\<close>

datatype json =
    JNull
  | JBool bool
  | JNum real
  | JStr string
  | JArr "json list"
  | JObj "(string \<times> json) list"

text \<open>The exceptions the modelled code can raise, as values.\<close>

datatype py_error =
    TypeError
  | KeyError
  | AttributeError
  | ValueError
  | ZeroDivisionError
  | JSONDecodeError
  | ConnectionClosed
  | OtherError

text \<open>Python's \<^verbatim>\<open>p in s\<close> on two strings: \<open>p\<close> occurs in \<open>s\<close> as a contiguous block.\<close>

fun starts_with :: "string \<Rightarrow> string \<Rightarrow> bool" where
  "starts_with [] s = True"
| "starts_with (c # p) [] = False"
| "starts_with (c # p) (d # s) = (c = d \<and> starts_with p s)"

fun str_contains :: "string \<Rightarrow> string \<Rightarrow> bool" where
  "str_contains p [] = (p = [])"
| "str_contains p (d # s) = (starts_with p (d # s) \<or> str_contains p s)"

text \<open>
  \<^verbatim>\<open>k in x\<close> for a string \<open>k\<close>: key membership on a dict, element membership on a list,
  substring on a string, \<^verbatim>\<open>TypeError\<close> on \<^verbatim>\<open>None\<close>, a bool or a number.
\<close>

fun py_in :: "string \<Rightarrow> json \<Rightarrow> py_error + bool" where
  "py_in k (JObj kvs) = Inr (map_of kvs k \<noteq> None)"
| "py_in k (JArr xs) = Inr (JStr k \<in> set xs)"
| "py_in k (JStr s) = Inr (str_contains k s)"
| "py_in k JNull = Inl TypeError"
| "py_in k (JBool b) = Inl TypeError"
| "py_in k (JNum r) = Inl TypeError"

text \<open>\<^verbatim>\<open>x[k]\<close> for a string \<open>k\<close>: \<^verbatim>\<open>KeyError\<close> on a dict without the key, \<^verbatim>\<open>TypeError\<close> elsewhere.\<close>

fun py_getitem :: "json \<Rightarrow> string \<Rightarrow> py_error + json" where
  "py_getitem (JObj kvs) k = (case map_of kvs k of None \<Rightarrow> Inl KeyError | Some v \<Rightarrow> Inr v)"
| "py_getitem JNull k = Inl TypeError"
| "py_getitem (JBool b) k = Inl TypeError"
| "py_getitem (JNum r) k = Inl TypeError"
| "py_getitem (JStr s) k = Inl TypeError"
| "py_getitem (JArr xs) k = Inl TypeError"

text \<open>\<^verbatim>\<open>x.get(k, dflt)\<close>: only a dict has the method, anything else raises \<^verbatim>\<open>AttributeError\<close>.\<close>

fun py_get :: "json \<Rightarrow> string \<Rightarrow> json \<Rightarrow> py_error + json" where
  "py_get (JObj kvs) k dflt = Inr (case map_of kvs k of None \<Rightarrow> dflt | Some v \<Rightarrow> v)"
| "py_get JNull k dflt = Inl AttributeError"
| "py_get (JBool b) k dflt = Inl AttributeError"
| "py_get (JNum r) k dflt = Inl AttributeError"
| "py_get (JStr s) k dflt = Inl AttributeError"
| "py_get (JArr xs) k dflt = Inl AttributeError"

text \<open>The operand of an arithmetic operator: a number, or a bool read as 0 or 1.\<close>

fun py_number :: "json \<Rightarrow> py_error + real" where
  "py_number (JNum r) = Inr r"
| "py_number (JBool b) = Inr (if b then 1 else 0)"
| "py_number JNull = Inl TypeError"
| "py_number (JStr s) = Inl TypeError"
| "py_number (JArr xs) = Inl TypeError"
| "py_number (JObj kvs) = Inl TypeError"

text \<open>Truth value of a decoded value, as \<^verbatim>\<open>if x\<close> and \<^verbatim>\<open>x or y\<close> test it.\<close>

fun py_truthy :: "json \<Rightarrow> bool" where
  "py_truthy JNull = False"
| "py_truthy (JBool b) = b"
| "py_truthy (JNum r) = (r \<noteq> 0)"
| "py_truthy (JStr s) = (s \<noteq> [])"
| "py_truthy (JArr xs) = (xs \<noteq> [])"
| "py_truthy (JObj kvs) = (kvs \<noteq> [])"

text \<open>Sequencing of computations that may raise: the first exception wins.\<close>

fun raising :: "py_error + 'a \<Rightarrow> ('a \<Rightarrow> py_error + 'b) \<Rightarrow> py_error + 'b" where
  "raising (Inl e) f = Inl e"
| "raising (Inr x) f = f x"

text \<open>
  The test \<^verbatim>\<open>'params' in data and 'data' in data['params']\<close> that guards every
  timestamp read; \<^verbatim>\<open>and\<close> evaluates its right operand only when the left one holds.
\<close>

definition has_params_data :: "json \<Rightarrow> py_error + bool" where
  "has_params_data data =
     raising (py_in ''params'' data) (\<lambda>b.
       if b then raising (py_getitem data ''params'') (\<lambda>params. py_in ''data'' params)
       else Inr False)"

text \<open>\<^verbatim>\<open>'timestamp' in data['params']['data']\<close>.\<close>

definition has_timestamp :: "json \<Rightarrow> py_error + bool" where
  "has_timestamp data =
     raising (py_getitem data ''params'') (\<lambda>params.
     raising (py_getitem params ''data'') (\<lambda>d. py_in ''timestamp'' d))"

text \<open>\<^verbatim>\<open>data['params']['data']['timestamp'] / 1000\<close>: the producer time in seconds.\<close>

definition server_seconds :: "json \<Rightarrow> py_error + real" where
  "server_seconds data =
     raising (py_getitem data ''params'') (\<lambda>params.
     raising (py_getitem params ''data'') (\<lambda>d.
     raising (py_getitem d ''timestamp'') (\<lambda>ts.
     raising (py_number ts) (\<lambda>n. Inr (n / 1000)))))"

section \<open>Latency test: the per-message sampler\<close>




section \<open>What the receive call delivers, and the clock\<close>

text \<open>
  One \<^verbatim>\<open>await asyncio.wait_for(websocket.recv(), timeout=1.0)\<close> either raises
  \<^verbatim>\<open>asyncio.TimeoutError\<close>, raises \<^verbatim>\<open>websockets.exceptions.ConnectionClosed\<close>, raises
  something else, or returns a text. A returned text is represented by what
  \<^verbatim>\<open>json.loads\<close> makes of it: the decoded value, or the \<^verbatim>\<open>JSONDecodeError\<close> it raises.
\<close>

datatype recv_result =
    TimedOut
  | Closed
  | Failed
  | Undecodable
  | Received json

text \<open>
  The program observes the outside world through three calls only: connecting (with
  the authentication and subscription that follow), receiving, and reading the clock
  (\<^verbatim>\<open>time.time()\<close>, \<^verbatim>\<open>datetime.now()\<close>, in seconds). A run is determined by the values these
  calls deliver, in the order in which they are made. A loop whose script ends before the
  loop does has not returned: the result is \<open>None\<close>.
\<close>

text \<open>
  Opening a connection: \<^verbatim>\<open>websockets.connect\<close> raises; or it returns and a send of
  \<^verbatim>\<open>authenticate\<close> or \<^verbatim>\<open>subscribe_to_channels\<close> raises; or the connection is open and
  subscribed (a failed authentication is logged and is no exception).
\<close>

datatype setup_result =
    ConnectRaises
  | SendRaises
  | Connected

section \<open>Latency test: the receive loop\<close>





section \<open>The tester and one connection session\<close>

text \<open>\<^verbatim>\<open>WebSocketMessage\<close>, lines 23 to 30.\<close>

record ws_message =
  timestamp :: real
  message_type :: json
  channel :: json
  data :: json
  latency :: "real option"

text \<open>
  The attributes of \<^verbatim>\<open>DeribitWebSocketTester\<close> that the test modes read and write
  (\<^verbatim>\<open>__init__\<close>, lines 40 to 47). A connection object is represented by the id of the
  session that opened it. \<^verbatim>\<open>is_running\<close> is cleared only by the signal handler, which is
  not part of a run's model: a run reads the flag and never writes it.
\<close>

record tester =
  connections :: "nat list"
  messages :: "ws_message list"
  is_running :: bool
  total_messages :: nat
  connection_count :: nat
  reconnection_count :: nat

definition new_tester :: tester where
  "new_tester =
     \<lparr>connections = [], messages = [], is_running = True,
      total_messages = 0, connection_count = 0, reconnection_count = 0\<rparr>"

text \<open>
  How a call of \<^verbatim>\<open>single_connection_test\<close> has ended: the connection could not be opened,
  a send of the set-up raised, the loop condition became false, the connection was closed
  during a receive, or another exception left the loop through the handler of line 160.
\<close>

datatype ending =
    ConnectFailed
  | SetupFailed
  | Completed
  | Disconnected
  | MessageError

datatype phase =
    NotStarted
  | Receiving
  | Ended ending

text \<open>
  The local variables of one call of \<^verbatim>\<open>single_connection_test\<close>, with the values its
  own connection and its own clock readings will deliver (\<open>on_connect\<close>, \<open>clock\<close>, \<open>recvs\<close>).
\<close>

record session =
  connection_id :: nat
  phase :: phase
  start_time :: real
  connection_messages :: nat
  on_connect :: setup_result
  clock :: "real list"
  recvs :: "recv_result list"

definition new_session :: "nat \<Rightarrow> setup_result \<Rightarrow> real list \<Rightarrow> recv_result list \<Rightarrow> session" where
  "new_session i su clk rs =
     \<lparr>connection_id = i, phase = NotStarted, start_time = 0, connection_messages = 0,
      on_connect = su, clock = clk, recvs = rs\<rparr>"

text \<open>Lines 134 to 138: the latency stored with a message, unfiltered.\<close>

definition message_latency :: "json \<Rightarrow> real \<Rightarrow> py_error + real option" where
  "message_latency msg receive_time =
     raising (has_params_data msg) (\<lambda>b1.
       if b1 then
         raising (has_timestamp msg) (\<lambda>b2.
           if b2 then
             raising (server_seconds msg) (\<lambda>server_time.
               Inr (Some ((receive_time - server_time) * 1000)))
           else Inr None)
       else Inr None)"

text \<open>Lines 141 to 147: the stored message; both \<^verbatim>\<open>.get\<close> chains can raise.\<close>

definition make_ws_message :: "json \<Rightarrow> real \<Rightarrow> py_error + ws_message" where
  "make_ws_message msg receive_time =
     raising (message_latency msg receive_time) (\<lambda>lat.
     raising (py_get msg ''method'' (JStr ''unknown'')) (\<lambda>mt.
     raising (py_get msg ''params'' (JObj [])) (\<lambda>params.
     raising (py_get params ''channel'' (JStr ''unknown'')) (\<lambda>ch.
       Inr \<lparr>timestamp = receive_time, message_type = mt, channel = ch, data = msg,
            latency = lat\<rparr>))))"

text \<open>
  Lines 111 to 122 and 166 to 168: connecting, authenticating and subscribing. An
  exception here reaches the outer handler, which counts a reconnection.
\<close>

definition connect_step :: "tester \<Rightarrow> session \<Rightarrow> (tester \<times> session) option" where
  "connect_step st s =
     (case on_connect s of
        ConnectRaises \<Rightarrow>
          Some (st\<lparr>reconnection_count := reconnection_count st + 1\<rparr>,
                s\<lparr>phase := Ended ConnectFailed\<rparr>)
      | SendRaises \<Rightarrow>
          Some (st\<lparr>connection_count := connection_count st + 1,
                   connections := connections st @ [connection_id s],
                   reconnection_count := reconnection_count st + 1\<rparr>,
                s\<lparr>phase := Ended SetupFailed\<rparr>)
      | Connected \<Rightarrow>
          (case clock s of
             [] \<Rightarrow> None
           | t # clk \<Rightarrow>
               Some (st\<lparr>connection_count := connection_count st + 1,
                        connections := connections st @ [connection_id s]\<rparr>,
                     s\<lparr>phase := Receiving, start_time := t, connection_messages := 0,
                       clock := clk\<rparr>)))"

text \<open>
  Lines 124 to 162: the loop condition and one pass through the loop body. The clock is
  read only when \<^verbatim>\<open>is_running\<close> holds. The two counters are incremented right after
  \<^verbatim>\<open>json.loads\<close> has returned, before the message is inspected; the timeout handler
  continues, the two other handlers break.
\<close>

definition receive_iteration :: "int \<Rightarrow> tester \<Rightarrow> session \<Rightarrow> (tester \<times> session) option" where
  "receive_iteration duration st s =
     (if is_running st then
        (case clock s of
           [] \<Rightarrow> None
         | t # clk \<Rightarrow>
             if t - start_time s < real_of_int duration then
               (case recvs s of
                  [] \<Rightarrow> None
                | TimedOut # rs \<Rightarrow> Some (st, s\<lparr>clock := clk, recvs := rs\<rparr>)
                | Closed # rs \<Rightarrow>
                    Some (st, s\<lparr>clock := clk, recvs := rs, phase := Ended Disconnected\<rparr>)
                | Failed # rs \<Rightarrow>
                    Some (st, s\<lparr>clock := clk, recvs := rs, phase := Ended MessageError\<rparr>)
                | Undecodable # rs \<Rightarrow>
                    (case clk of
                       [] \<Rightarrow> None
                     | receive_time # clk' \<Rightarrow>
                         Some (st, s\<lparr>clock := clk', recvs := rs,
                                    phase := Ended MessageError\<rparr>))
                | Received msg # rs \<Rightarrow>
                    (case clk of
                       [] \<Rightarrow> None
                     | receive_time # clk' \<Rightarrow>
                         (let st1 = st\<lparr>total_messages := total_messages st + 1\<rparr>;
                              s1 = s\<lparr>clock := clk', recvs := rs,
                                     connection_messages := connection_messages s + 1\<rparr>
                          in case make_ws_message msg receive_time of
                               Inl e \<Rightarrow> Some (st1, s1\<lparr>phase := Ended MessageError\<rparr>)
                             | Inr m \<Rightarrow> Some (st1\<lparr>messages := messages st1 @ [m]\<rparr>, s1))))
             else Some (st, s\<lparr>clock := clk, phase := Ended Completed\<rparr>))
      else Some (st, s\<lparr>phase := Ended Completed\<rparr>))"

text \<open>
  The next stretch of \<^verbatim>\<open>single_connection_test\<close> between two of its \<^verbatim>\<open>await\<close>s;
  \<open>None\<close> when the call has ended or its script has nothing more to deliver.
\<close>

definition session_step :: "int \<Rightarrow> tester \<Rightarrow> session \<Rightarrow> (tester \<times> session) option" where
  "session_step duration st s =
     (case phase s of
        NotStarted \<Rightarrow> connect_step st s
      | Receiving \<Rightarrow> receive_iteration duration st s
      | Ended e \<Rightarrow> None)"

fun phase_rank :: "phase \<Rightarrow> nat" where
  "phase_rank NotStarted = 2"
| "phase_rank Receiving = 1"
| "phase_rank (Ended e) = 0"

definition session_weight :: "session \<Rightarrow> nat" where
  "session_weight s = length (clock s) + phase_rank (phase s)"

lemma session_step_weight:
  "session_step duration st s = Some (st', s') \<Longrightarrow> session_weight s' < session_weight s"
  by (auto simp: session_step_def connect_step_def receive_iteration_def session_weight_def
      Let_def split: phase.splits setup_result.splits list.splits if_splits recv_result.splits
      sum.splits)

text \<open>
  One call of \<^verbatim>\<open>single_connection_test\<close> run on its own. The result is the tester and
  the session's variables where the run stands when it has ended (\<open>phase\<close> is \<open>Ended\<close>) or
  when the script has nothing more to deliver.
\<close>

function single_connection_test :: "int \<Rightarrow> tester \<Rightarrow> session \<Rightarrow> tester \<times> session" where
  "single_connection_test duration st s =
     (case session_step duration st s of
        None \<Rightarrow> (st, s)
      | Some (st', s') \<Rightarrow> single_connection_test duration st' s')"
  by pat_completeness auto
termination
  by (relation "measure (\<lambda>(duration, st, s). session_weight s)")
    (auto simp: session_step_weight)

declare single_connection_test.simps [simp del]

section \<open>Stress test: concurrent sessions\<close>

text \<open>
  \<^verbatim>\<open>stress_test\<close>, lines 182 to 190, creates one task per connection and gathers them.
  The tasks run interleaved on one event loop; a task gives way at its \<^verbatim>\<open>await\<close>s only. A
  schedule names, step by step, the session that runs its next stretch; a session that
  has ended or is still waiting leaves everything as it is.
\<close>

definition stress_step :: "int \<Rightarrow> tester \<times> session list \<Rightarrow> nat \<Rightarrow> tester \<times> session list" where
  "stress_step duration cfg i =
     (if i < length (snd cfg) then
        (case session_step duration (fst cfg) (snd cfg ! i) of
           None \<Rightarrow> cfg
         | Some (st', s') \<Rightarrow> (st', (snd cfg)[i := s']))
      else cfg)"

text \<open>
  The run of \<^verbatim>\<open>stress_test\<close> under a schedule; \<open>env i\<close> holds what the connection and
  the clock deliver to session \<open>i\<close>. The coordinator itself touches no attribute of the
  tester: after the gather it only prints.
\<close>

definition stress_test ::
  "nat \<Rightarrow> int \<Rightarrow> tester \<Rightarrow> (nat \<Rightarrow> setup_result \<times> real list \<times> recv_result list) \<Rightarrow> nat list
     \<Rightarrow> tester \<times> session list"
where
  "stress_test num_connections duration st env schedule =
     foldl (stress_step duration)
       (st, map (\<lambda>i. case env i of (su, clk, rs) \<Rightarrow> new_session i su clk rs)
                [0..<num_connections])
       schedule"

definition all_ended :: "session list \<Rightarrow> bool" where
  "all_ended ss = list_all (\<lambda>s. phase s \<noteq> NotStarted \<and> phase s \<noteq> Receiving) ss"

text \<open>
  What the three counters of the tester count, read off a session's variables: a session
  has connected once \<^verbatim>\<open>websockets.connect\<close> has returned, and has failed when an exception
  reached the handler of line 166.
\<close>

definition has_connected :: "session \<Rightarrow> bool" where
  "has_connected s = (phase s \<noteq> NotStarted \<and> phase s \<noteq> Ended ConnectFailed)"

definition has_failed :: "session \<Rightarrow> bool" where
  "has_failed s = (phase s = Ended ConnectFailed \<or> phase s = Ended SetupFailed)"

definition fresh :: "session \<Rightarrow> bool" where
  "fresh s = (if phase s = NotStarted then connection_messages s = 0 else True)"

definition counters_agree :: "tester \<Rightarrow> tester \<times> session list \<Rightarrow> bool" where
  "counters_agree st0 cfg =
     (total_messages (fst cfg) =
        total_messages st0 + sum_list (map connection_messages (snd cfg))
      \<and> connection_count (fst cfg) =
        connection_count st0 + length (filter has_connected (snd cfg))
      \<and> reconnection_count (fst cfg) =
        reconnection_count st0 + length (filter has_failed (snd cfg))
      \<and> list_all fresh (snd cfg)
      \<and> is_running (fst cfg) = is_running st0)"

section \<open>Reconnection test\<close>













section \<open>Tick analysis: collecting the ticks\<close>

text \<open>
  The dictionary \<^verbatim>\<open>tick_info\<close> of lines 288 to 299. Values copied from the message keep
  the type they have there; a key that \<^verbatim>\<open>.get\<close> does not find gives \<^verbatim>\<open>None\<close>. The field
  \<open>tick_channel\<close> is the key \<^verbatim>\<open>'channel'\<close>.
\<close>

record tick_info =
  tick_number :: nat
  tick_channel :: json
  receive_time :: real
  server_timestamp :: json
  delay_ms :: "real option"
  data_size :: nat
  price :: json
  volume :: json
  bid_price :: json
  ask_price :: json

text \<open>
  \<^verbatim>\<open>{channel: [] for channel in channels}\<close>, line 262: one key per distinct name, in the
  order of first occurrence.
\<close>

fun dict_keys :: "string list \<Rightarrow> string list" where
  "dict_keys [] = []"
| "dict_keys (c # cs) = c # filter (\<lambda>d. d \<noteq> c) (dict_keys cs)"

definition init_tick_data :: "string list \<Rightarrow> (string \<times> tick_info list) list" where
  "init_tick_data channels = map (\<lambda>c. (c, [])) (dict_keys channels)"

text \<open>\<^verbatim>\<open>tick_data[ch].append(tick_info)\<close>, line 304.\<close>

definition append_tick ::
  "string \<Rightarrow> tick_info \<Rightarrow> (string \<times> tick_info list) list
     \<Rightarrow> py_error + (string \<times> tick_info list) list"
where
  "append_tick ch info td =
     (if map_of td ch = None then Inl KeyError
      else Inr (map (\<lambda>(k, ticks). if k = ch then (k, ticks @ [info]) else (k, ticks)) td))"

text \<open>
  Lines 302 to 305: the tick goes to the first subscribed channel \<open>ch\<close> for which
  \<^verbatim>\<open>ch in channel\<close> holds, and to none when there is no such channel.
\<close>

fun store_tick ::
  "string list \<Rightarrow> json \<Rightarrow> tick_info \<Rightarrow> (string \<times> tick_info list) list
     \<Rightarrow> py_error + (string \<times> tick_info list) list"
where
  "store_tick [] chan info td = Inr td"
| "store_tick (ch # chs) chan info td =
     (case py_in ch chan of
        Inl e \<Rightarrow> Inl e
      | Inr hit \<Rightarrow> if hit then append_tick ch info td else store_tick chs chan info td)"

text \<open>
  Lines 281 to 285: the delay of a tick, stored as computed. The length of
  \<^verbatim>\<open>str(data)\<close> is a parameter of the model (\<open>str_len\<close>).
\<close>

definition tick_delay :: "json \<Rightarrow> real \<Rightarrow> py_error + real option" where
  "tick_delay tick_data_point rt =
     raising (py_in ''timestamp'' tick_data_point) (\<lambda>b.
       if b then
         raising (py_getitem tick_data_point ''timestamp'') (\<lambda>ts.
         raising (py_number ts) (\<lambda>n. Inr (Some ((rt - n / 1000) * 1000))))
       else Inr None)"

text \<open>Lines 288 to 299; \<^verbatim>\<open>a or b\<close> is \<open>a\<close> when \<open>a\<close> is true and \<open>b\<close> otherwise.\<close>

definition make_tick_info ::
  "(json \<Rightarrow> nat) \<Rightarrow> nat \<Rightarrow> json \<Rightarrow> json \<Rightarrow> json \<Rightarrow> real \<Rightarrow> py_error + tick_info"
where
  "make_tick_info str_len count msg chan tick_data_point rt =
     raising (tick_delay tick_data_point rt) (\<lambda>delay.
     raising (py_get tick_data_point ''timestamp'' JNull) (\<lambda>sts.
     raising (py_get tick_data_point ''last_price'' JNull) (\<lambda>last_price.
     raising (if py_truthy last_price then Inr last_price
              else py_get tick_data_point ''price'' JNull) (\<lambda>pr.
     raising (py_get tick_data_point ''volume'' JNull) (\<lambda>vol.
     raising (py_get tick_data_point ''best_bid_price'' JNull) (\<lambda>bid.
     raising (py_get tick_data_point ''best_ask_price'' JNull) (\<lambda>ask.
       Inr \<lparr>tick_number = count, tick_channel = chan, receive_time = rt,
            server_timestamp = sts, delay_ms = delay, data_size = str_len msg,
            price = pr, volume = vol, bid_price = bid, ask_price = ask\<rparr>)))))))"

text \<open>
  Lines 277 to 305 for a decoded message: \<open>Inr\<close> the new \<^verbatim>\<open>tick_data\<close>, \<open>Inl\<close> the
  exception raised on the way.
\<close>

definition record_tick ::
  "(json \<Rightarrow> nat) \<Rightarrow> string list \<Rightarrow> nat \<Rightarrow> json \<Rightarrow> real \<Rightarrow> (string \<times> tick_info list) list
     \<Rightarrow> py_error + (string \<times> tick_info list) list"
where
  "record_tick str_len channels count msg rt td =
     raising (py_in ''params'' msg) (\<lambda>b1.
     raising (if b1 then raising (py_getitem msg ''params'') (\<lambda>params. py_in ''channel'' params)
              else Inr False) (\<lambda>b2.
       if b2 then
         raising (py_getitem msg ''params'') (\<lambda>params.
         raising (py_getitem params ''channel'') (\<lambda>chan.
         raising (py_getitem params ''data'') (\<lambda>tick_data_point.
         raising (make_tick_info str_len count msg chan tick_data_point rt) (\<lambda>info.
           store_tick channels chan info td))))
       else Inr td))"

text \<open>
  Lines 273 to 315 for a decoded message: the tick count is incremented first; an
  exception raised afterwards is logged by the handler of line 313 and the loop continues
  with \<^verbatim>\<open>tick_data\<close> as it was.
\<close>

definition process_tick ::
  "(json \<Rightarrow> nat) \<Rightarrow> string list \<Rightarrow> json \<Rightarrow> real \<Rightarrow> (string \<times> tick_info list) list \<times> nat
     \<Rightarrow> (string \<times> tick_info list) list \<times> nat"
where
  "process_tick str_len channels msg rt state =
     (case state of (td, tick_count) \<Rightarrow>
        (case record_tick str_len channels (tick_count + 1) msg rt td of
           Inl e \<Rightarrow> (td, tick_count + 1)
         | Inr td' \<Rightarrow> (td', tick_count + 1)))"

text \<open>
  Lines 268 to 315: the collection loop. Every exception but the receive timeout is
  logged as a warning; both handlers continue the loop.
\<close>

fun tick_loop ::
  "(json \<Rightarrow> nat) \<Rightarrow> string list \<Rightarrow> real \<Rightarrow> int \<Rightarrow> (string \<times> tick_info list) list \<times> nat
     \<Rightarrow> real list \<Rightarrow> recv_result list \<Rightarrow> ((string \<times> tick_info list) list \<times> nat) option"
where
  "tick_loop str_len channels start duration state [] rs = None"
| "tick_loop str_len channels start duration state (t # clk) rs =
     (if t - start < real_of_int duration then
        (case rs of
           [] \<Rightarrow> None
         | TimedOut # rs' \<Rightarrow> tick_loop str_len channels start duration state clk rs'
         | Closed # rs' \<Rightarrow> tick_loop str_len channels start duration state clk rs'
         | Failed # rs' \<Rightarrow> tick_loop str_len channels start duration state clk rs'
         | Undecodable # rs' \<Rightarrow>
             (case clk of
                [] \<Rightarrow> None
              | rt # clk' \<Rightarrow> tick_loop str_len channels start duration state clk' rs')
         | Received msg # rs' \<Rightarrow>
             (case clk of
                [] \<Rightarrow> None
              | rt # clk' \<Rightarrow>
                  tick_loop str_len channels start duration
                    (process_tick str_len channels msg rt state) clk' rs'))
      else Some state)"

section \<open>Tick analysis: the analyzer\<close>

text \<open>What \<^verbatim>\<open>_analyze_tick_data\<close> (lines 323 to 416) logs, as a value.\<close>

record delay_statistics =
  average_delay :: real
  median_delay :: real
  min_delay :: real
  max_delay :: real
  delay_std_dev :: real
  delay_distribution :: "(string \<times> nat \<times> real) list"

record size_statistics =
  average_size :: real
  min_size :: nat
  max_size :: nat

record price_movement =
  total_price_updates :: nat
  price_change_count :: nat
  change_frequency :: real
  average_price_change :: "real option"

record sample_tick =
  sample_number :: nat
  sample_delay :: "real option"
  sample_price :: "real option"
  sample_size :: nat

datatype channel_report =
    NoDataReceived string
  | ChannelReport string nat real "delay_statistics option" "size_statistics option"
      "price_movement option" "sample_tick list"

record performance_summary =
  messages_with_delay :: nat
  overall_average_delay :: real
  performance_rating :: string

record report =
  ticks_received :: nat
  ticks_per_second :: real
  channel_reports :: "channel_report list"
  overall_performance :: "performance_summary option"

text \<open>Lines 344 and 398: the delays of the ticks that have one.\<close>

definition delays_of :: "tick_info list \<Rightarrow> real list" where
  "delays_of ticks = List.map_filter delay_ms ticks"

text \<open>\<^verbatim>\<open>_calculate_std_dev\<close>, lines 418 to 424.\<close>

definition calculate_std_dev :: "real list \<Rightarrow> real" where
  "calculate_std_dev values =
     (if values = [] then 0
      else (let mean = sum_list values / real (length values);
                variance = sum_list (map (\<lambda>x. (x - mean) ^ 2) values) / real (length values)
            in sqrt variance))"

text \<open>Lines 354 to 360.\<close>

definition delay_ranges :: "real list \<Rightarrow> (string \<times> nat) list" where
  "delay_ranges delays =
     [(''0-50ms'', length (filter (\<lambda>d. 0 \<le> d \<and> d < 50) delays)),
      (''50-100ms'', length (filter (\<lambda>d. 50 \<le> d \<and> d < 100) delays)),
      (''100-200ms'', length (filter (\<lambda>d. 100 \<le> d \<and> d < 200) delays)),
      (''200-500ms'', length (filter (\<lambda>d. 200 \<le> d \<and> d < 500) delays)),
      (''500ms+'', length (filter (\<lambda>d. d \<ge> 500) delays))]"

text \<open>Lines 345 to 365, under the guard \<^verbatim>\<open>if delays\<close>.\<close>

definition delay_statistics_of :: "real list \<Rightarrow> delay_statistics option" where
  "delay_statistics_of delays =
     (case delays of
        [] \<Rightarrow> None
      | d # ds \<Rightarrow>
          Some \<lparr>average_delay = sum_list delays / real (length delays),
                median_delay = sort delays ! (length delays div 2),
                min_delay = fold min ds d,
                max_delay = fold max ds d,
                delay_std_dev = calculate_std_dev delays,
                delay_distribution =
                  map (\<lambda>(range_name, count).
                         (range_name, count, (real count / real (length delays)) * 100))
                      (delay_ranges delays)\<rparr>)"

text \<open>Lines 368 to 373.\<close>

definition size_statistics_of :: "nat list \<Rightarrow> size_statistics option" where
  "size_statistics_of data_sizes =
     (case data_sizes of
        [] \<Rightarrow> None
      | n # ns \<Rightarrow>
          Some \<lparr>average_size = real (sum_list data_sizes) / real (length data_sizes),
                min_size = fold min ns n,
                max_size = fold max ns n\<rparr>)"

text \<open>Line 378: the absolute differences of consecutive prices; the subtraction can raise.\<close>

fun price_changes :: "json list \<Rightarrow> py_error + real list" where
  "price_changes (p # q # ps) =
     raising (py_number q) (\<lambda>b.
     raising (py_number p) (\<lambda>a.
     raising (price_changes (q # ps)) (\<lambda>changes. Inr (\<bar>b - a\<bar> # changes))))"
| "price_changes [p] = Inr []"
| "price_changes [] = Inr []"

text \<open>Lines 376 to 386.\<close>

definition price_movement_of :: "json list \<Rightarrow> py_error + price_movement option" where
  "price_movement_of prices =
     (if length prices > 1 then
        raising (price_changes prices) (\<lambda>changes.
          let non_zero_changes = filter (\<lambda>pc. pc > 0) changes
          in Inr (Some
               \<lparr>total_price_updates = length prices,
                price_change_count = length non_zero_changes,
                change_frequency =
                  (real (length non_zero_changes) / real (length prices)) * 100,
                average_price_change =
                  (if non_zero_changes = [] then None
                   else Some (sum_list non_zero_changes / real (length non_zero_changes)))\<rparr>))
      else Inr None)"

text \<open>
  Lines 390 to 393: a delay or a price that is \<^verbatim>\<open>None\<close> or zero is shown as N/A;
  formatting a true price with \<^verbatim>\<open>.2f\<close> raises unless it is a number.
\<close>

fun format_price :: "json \<Rightarrow> py_error + real option" where
  "format_price JNull = Inr None"
| "format_price (JBool b) = Inr (if b then Some 1 else None)"
| "format_price (JNum r) = Inr (if r \<noteq> 0 then Some r else None)"
| "format_price (JStr s) = (if s \<noteq> [] then Inl ValueError else Inr None)"
| "format_price (JArr xs) = (if xs \<noteq> [] then Inl TypeError else Inr None)"
| "format_price (JObj kvs) = (if kvs \<noteq> [] then Inl TypeError else Inr None)"

definition sample_of :: "tick_info \<Rightarrow> py_error + sample_tick" where
  "sample_of tick =
     raising (format_price (price tick)) (\<lambda>shown_price.
       Inr \<lparr>sample_number = tick_number tick,
            sample_delay = (case delay_ms tick of
                              None \<Rightarrow> None
                            | Some d \<Rightarrow> if d \<noteq> 0 then Some d else None),
            sample_price = shown_price,
            sample_size = data_size tick\<rparr>)"

fun collect :: "('a \<Rightarrow> py_error + 'b) \<Rightarrow> 'a list \<Rightarrow> py_error + 'b list" where
  "collect f [] = Inr []"
| "collect f (x # xs) =
     raising (f x) (\<lambda>y. raising (collect f xs) (\<lambda>ys. Inr (y # ys)))"

text \<open>Lines 334 to 393: the body of the loop over the channels.\<close>

definition channel_report_of :: "int \<Rightarrow> string \<times> tick_info list \<Rightarrow> py_error + channel_report" where
  "channel_report_of duration entry =
     (case entry of (chan, ticks) \<Rightarrow>
        if ticks = [] then Inr (NoDataReceived chan)
        else
          raising (price_movement_of (filter (\<lambda>p. p \<noteq> JNull) (map price ticks))) (\<lambda>movement.
          raising (collect sample_of (take 5 ticks)) (\<lambda>samples.
            Inr (ChannelReport chan (length ticks)
                   (real (length ticks) / real_of_int duration)
                   (delay_statistics_of (delays_of ticks))
                   (size_statistics_of (map data_size ticks))
                   movement samples))))"

text \<open>Lines 407 to 414.\<close>

definition rating_of :: "real \<Rightarrow> string" where
  "rating_of avg_delay =
     (if avg_delay < 50 then ''EXCELLENT''
      else if avg_delay < 100 then ''GOOD''
      else if avg_delay < 200 then ''FAIR''
      else ''POOR'')"

text \<open>Lines 396 to 416.\<close>

definition overall_of :: "real list \<Rightarrow> performance_summary option" where
  "overall_of all_delays =
     (if all_delays = [] then None
      else Some \<lparr>messages_with_delay = length all_delays,
                 overall_average_delay = sum_list all_delays / real (length all_delays),
                 performance_rating = rating_of (sum_list all_delays / real (length all_delays))\<rparr>)"

text \<open>
  \<^verbatim>\<open>_analyze_tick_data\<close>. The division of line 332 comes before the loop over the
  channels and raises \<^verbatim>\<open>ZeroDivisionError\<close> when the duration is 0.
\<close>

definition analyze_tick_data ::
  "(string \<times> tick_info list) list \<Rightarrow> int \<Rightarrow> py_error + report"
where
  "analyze_tick_data tick_data duration =
     (let total_ticks = sum_list (map (\<lambda>(chan, ticks). length ticks) tick_data)
      in if duration = 0 then Inl ZeroDivisionError
         else
           raising (collect (channel_report_of duration) tick_data) (\<lambda>reports.
             Inr \<lparr>ticks_received = total_ticks,
                  ticks_per_second = real total_ticks / real_of_int duration,
                  channel_reports = reports,
                  overall_performance =
                    overall_of (concat (map (\<lambda>(chan, ticks). delays_of ticks) tick_data))\<rparr>))"

text \<open>
  \<^verbatim>\<open>tick_by_tick_delay_test\<close>, lines 256 to 321: connect, collect for the duration,
  analyze. An exception of the set-up or of the analysis reaches the handler of line 320.
\<close>

definition tick_by_tick_delay_test ::
  "(json \<Rightarrow> nat) \<Rightarrow> int \<Rightarrow> string list \<Rightarrow> setup_result \<Rightarrow> real list \<Rightarrow> recv_result list
     \<Rightarrow> (py_error + report) option"
where
  "tick_by_tick_delay_test str_len duration channels su clk rs =
     (case su of
        ConnectRaises \<Rightarrow> Some (Inl OtherError)
      | SendRaises \<Rightarrow> Some (Inl OtherError)
      | Connected \<Rightarrow>
          (case clk of
             [] \<Rightarrow> None
           | start # clk' \<Rightarrow>
               (case tick_loop str_len channels start duration (init_tick_data channels, 0)
                       clk' rs of
                  None \<Rightarrow> None
                | Some (td, tick_count) \<Rightarrow> Some (analyze_tick_data td duration))))"

text \<open>A channel notification with the given data object, as the feed sends it.\<close>

definition notification :: "string \<Rightarrow> json \<Rightarrow> json" where
  "notification ch d =
     JObj [(''jsonrpc'', JStr ''2.0''), (''method'', JStr ''subscription''),
           (''params'', JObj [(''channel'', JStr ch), (''data'', d)])]"

section \<open>Properties of the latency sampler\<close>



lemma raising_Inr_iff:
  "raising m f = Inr y \<longleftrightarrow> (\<exists>x. m = Inr x \<and> f x = Inr y)"
  by (cases m) auto












section \<open>Properties of a connection session\<close>






section \<open>Properties of the stress test\<close>

lemma sum_list_map_update:
  fixes f :: "'a \<Rightarrow> nat"
  shows "i < length xs \<Longrightarrow>
    sum_list (map f (xs[i := y])) + f (xs ! i) = sum_list (map f xs) + f y"
proof (induction xs arbitrary: i)
  case Nil
  then show ?case by simp
next
  case (Cons x xs)
  then show ?case by (cases i) auto
qed

lemma length_filter_update:
  "i < length xs \<Longrightarrow>
    length (filter P (xs[i := y])) + (if P (xs ! i) then 1 else 0) =
    length (filter P xs) + (if P y then 1 else 0)"
proof (induction xs arbitrary: i)
  case Nil
  then show ?case by simp
next
  case (Cons x xs)
  then show ?case by (cases i) auto
qed

lemma session_step_counters:
  assumes "session_step duration st s = Some (st', s')" and "fresh s"
  shows "total_messages st' + connection_messages s = total_messages st + connection_messages s'"
    and "connection_count st' + (if has_connected s then 1 else 0) =
         connection_count st + (if has_connected s' then 1 else 0)"
    and "reconnection_count st' + (if has_failed s then 1 else 0) =
         reconnection_count st + (if has_failed s' then 1 else 0)"
    and "fresh s'"
    and "is_running st' = is_running st"
  using assms
  by (auto simp: session_step_def connect_step_def receive_iteration_def has_connected_def
      has_failed_def fresh_def Let_def
      split: phase.splits setup_result.splits list.splits if_splits recv_result.splits sum.splits)


lemma list_all_update:
  "list_all P xs \<Longrightarrow> P y \<Longrightarrow> list_all P (xs[i := y])"
  by (induction xs arbitrary: i) (auto split: nat.splits)

lemma stress_step_counters_agree:
  assumes "counters_agree st0 cfg"
  shows "counters_agree st0 (stress_step duration cfg i)"
proof (cases "i < length (snd cfg)")
  case False
  with assms show ?thesis by (simp add: stress_step_def)
next
  case True
  note inside = this
  show ?thesis
  proof (cases "session_step duration (fst cfg) (snd cfg ! i)")
    case None
    with assms show ?thesis by (simp add: stress_step_def)
  next
    case (Some r)
    obtain st' s' where r: "r = (st', s')" by (cases r)
    have fr: "fresh (snd cfg ! i)"
      using assms inside by (simp add: counters_agree_def list_all_length)
    note c = session_step_counters [OF Some [unfolded r] fr]
    have step: "stress_step duration cfg i = (st', (snd cfg)[i := s'])"
      using inside Some r by (simp add: stress_step_def)
    have a: "total_messages st' =
        total_messages st0 + sum_list (map connection_messages ((snd cfg)[i := s']))"
      using c(1) sum_list_map_update [OF inside, of connection_messages s'] assms
      by (simp add: counters_agree_def)
    have b: "connection_count st' =
        connection_count st0 + length (filter has_connected ((snd cfg)[i := s']))"
      using c(2) length_filter_update [OF inside, of has_connected s'] assms
      by (simp add: counters_agree_def split: if_splits)
    have d: "reconnection_count st' =
        reconnection_count st0 + length (filter has_failed ((snd cfg)[i := s']))"
      using c(3) length_filter_update [OF inside, of has_failed s'] assms
      by (simp add: counters_agree_def split: if_splits)
    have e: "list_all fresh ((snd cfg)[i := s'])"
      using assms c(4) by (simp add: counters_agree_def list_all_update)
    have f: "is_running st' = is_running st0"
      using assms c(5) by (simp add: counters_agree_def)
    from a b d e f show ?thesis
      unfolding step counters_agree_def by simp
  qed
qed

lemma stress_run_counters_agree:
  "counters_agree st0 cfg \<Longrightarrow> counters_agree st0 (foldl (stress_step duration) cfg schedule)"
  by (induction schedule arbitrary: cfg) (auto simp: stress_step_counters_agree)

lemma new_sessions_counters_agree:
  "counters_agree st
     (st, map (\<lambda>i. case env i of (su, clk, rs) \<Rightarrow> new_session i su clk rs) [0..<n])"
  by (induction n)
    (auto simp: counters_agree_def new_session_def has_connected_def has_failed_def fresh_def
      split: prod.splits)

lemma stress_test_counters_agree:
  "counters_agree st (stress_test n duration st env schedule)"
  unfolding stress_test_def
  by (rule stress_run_counters_agree) (rule new_sessions_counters_agree)


lemma session_step_local:
  assumes "is_running st1 = is_running st2"
  shows "map_option snd (session_step duration st1 s) =
         map_option snd (session_step duration st2 s)"
  using assms
  by (auto simp: session_step_def connect_step_def receive_iteration_def Let_def
      split: phase.splits setup_result.splits list.splits recv_result.splits sum.splits)

lemma single_connection_test_local:
  "is_running st1 = is_running st2 \<Longrightarrow>
   snd (single_connection_test duration st1 s) = snd (single_connection_test duration st2 s)"
proof (induction duration st1 s arbitrary: st2 rule: single_connection_test.induct)
  case (1 duration st1 s)
  show ?case
  proof (cases "session_step duration st1 s")
    case None
    with session_step_local [OF "1.prems", of duration s]
    have "session_step duration st2 s = None" by simp
    with None show ?thesis by (simp add: single_connection_test.simps)
  next
    case (Some r)
    obtain st1' s' where r: "r = (st1', s')" by (cases r)
    from Some r session_step_local [OF "1.prems", of duration s]
    obtain st2' where two: "session_step duration st2 s = Some (st2', s')"
      by (cases "session_step duration st2 s") auto
    have "is_running st1' = is_running st1"
      using Some r by (auto simp: session_step_def connect_step_def receive_iteration_def Let_def
      split: phase.splits setup_result.splits list.splits recv_result.splits sum.splits if_splits)
    moreover have "is_running st2' = is_running st2"
      using two by (auto simp: session_step_def connect_step_def receive_iteration_def Let_def
      split: phase.splits setup_result.splits list.splits recv_result.splits sum.splits if_splits)
    ultimately have "is_running st1' = is_running st2'" using "1.prems" by simp
    from "1.IH" [OF Some [unfolded r] refl this] Some r two
    show ?thesis by (simp add: single_connection_test.simps)
  qed
qed


lemma session_step_is_running:
  "session_step duration st s = Some (st', s') \<Longrightarrow> is_running st' = is_running st"
  by (auto simp: session_step_def connect_step_def receive_iteration_def Let_def
      split: phase.splits setup_result.splits list.splits recv_result.splits sum.splits if_splits)

lemma stress_step_outcomes:
  assumes "stress_step duration (st, ss) i = (st', ss')"
  shows "length ss' = length ss \<and> is_running st' = is_running st
    \<and> (\<forall>j<length ss. snd (single_connection_test duration st' (ss' ! j)) =
                       snd (single_connection_test duration st (ss ! j)))"
proof (cases "i < length ss")
  case False
  with assms show ?thesis by (simp add: stress_step_def)
next
  case True
  note inside = this
  show ?thesis
  proof (cases "session_step duration st (ss ! i)")
    case None
    with assms inside show ?thesis by (auto simp add: stress_step_def)
  next
    case (Some r)
    obtain st1 s1 where r: "r = (st1, s1)" by (cases r)
    from assms inside Some r have eq: "st' = st1" "ss' = ss[i := s1]"
      by (simp_all add: stress_step_def)
    have run: "is_running st1 = is_running st"
      using Some r session_step_is_running by blast
    have "snd (single_connection_test duration st1 (ss[i := s1] ! j)) =
          snd (single_connection_test duration st (ss ! j))" if "j < length ss" for j
    proof (cases "j = i")
      case True
      with inside Some r show ?thesis
        by (simp add: single_connection_test.simps [of duration st "ss ! i"])
    next
      case False
      with single_connection_test_local [OF run, of duration "ss ! j"] show ?thesis by simp
    qed
    with eq run show ?thesis by simp
  qed
qed

lemma stress_run_outcomes:
  "foldl (stress_step duration) (st, ss) schedule = (st', ss') \<Longrightarrow>
   length ss' = length ss \<and> is_running st' = is_running st
    \<and> (\<forall>j<length ss. snd (single_connection_test duration st' (ss' ! j)) =
                       snd (single_connection_test duration st (ss ! j)))"
proof (induction schedule arbitrary: st ss)
  case Nil
  then show ?case by simp
next
  case (Cons i schedule)
  obtain st1 ss1 where one: "stress_step duration (st, ss) i = (st1, ss1)"
    by (cases "stress_step duration (st, ss) i")
  from Cons.prems one have "foldl (stress_step duration) (st1, ss1) schedule = (st', ss')"
    by simp
  from Cons.IH [OF this] stress_step_outcomes [OF one] show ?case by simp
qed

lemma ended_is_final:
  "phase s \<noteq> NotStarted \<Longrightarrow> phase s \<noteq> Receiving \<Longrightarrow>
   single_connection_test duration st s = (st, s)"
  by (cases "phase s") (simp_all add: single_connection_test.simps session_step_def)

lemma stress_run_ended_sessions:
  assumes "foldl (stress_step duration) (st, ss) schedule = (st', ss')" and "all_ended ss'"
  shows "ss' = map (\<lambda>s. snd (single_connection_test duration st s)) ss"
proof (rule nth_equalityI)
  from stress_run_outcomes [OF assms(1)] show "length ss' = length (map (\<lambda>s. snd (single_connection_test duration st s)) ss)"
    by simp
next
  fix j assume "j < length ss'"
  with stress_run_outcomes [OF assms(1)] have j: "j < length ss"
    and eq: "snd (single_connection_test duration st' (ss' ! j)) =
                       snd (single_connection_test duration st (ss ! j))" by simp_all
  from assms(2) \<open>j < length ss'\<close> have "phase (ss' ! j) \<noteq> NotStarted \<and> phase (ss' ! j) \<noteq> Receiving"
    by (simp add: all_ended_def list_all_length)
  then have "single_connection_test duration st' (ss' ! j) = (st', ss' ! j)"
    using ended_is_final by blast
  with eq j show "ss' ! j = map (\<lambda>s. snd (single_connection_test duration st s)) ss ! j"
    by simp
qed


text \<open>
  Claim C7. Whatever the interleaving of the sessions, the tester's \<^verbatim>\<open>total_messages\<close>
  after a stress run on a new tester is the sum of the sessions' own
  \<^verbatim>\<open>connection_messages\<close>; and two interleavings under which every session has ended, the
  sessions being given the same inputs, end with the same count in every session and the
  same total.
\<close>

theorem stress_total_is_order_independent_sum:
  "(stress_test n duration new_tester env schedule = (st1, ss1) \<longrightarrow>
      total_messages st1 = sum_list (map connection_messages ss1))
   \<and> (stress_test n duration new_tester env schedule = (st1, ss1) \<and> all_ended ss1
      \<and> stress_test n duration new_tester env schedule' = (st2, ss2) \<and> all_ended ss2 \<longrightarrow>
        map connection_messages ss2 = map connection_messages ss1
        \<and> total_messages st2 = total_messages st1)"
proof -
  have total: "total_messages st = sum_list (map connection_messages ss)"
    if "stress_test n duration new_tester env sch = (st, ss)" for sch st ss
    using stress_test_counters_agree [of new_tester n duration env sch] that
    by (simp add: counters_agree_def new_tester_def)
  have same: "ss2 = ss1"
    if "stress_test n duration new_tester env schedule = (st1, ss1)" "all_ended ss1"
       "stress_test n duration new_tester env schedule' = (st2, ss2)" "all_ended ss2"
    using that stress_run_ended_sessions unfolding stress_test_def by blast
  from total same show ?thesis by metis
qed

text \<open>
  Two sessions, the first receiving one notification and the second two, run one after
  the other and run alternately.
\<close>

definition two_feeds :: "nat \<Rightarrow> setup_result \<times> real list \<times> recv_result list" where
  "two_feeds i =
     (if i = 0 then
        (Connected, [0, 1, 1, 61],
         [Received (notification ''ticker.BTC-PERPETUAL.100ms'' (JObj []))])
      else
        (Connected, [0, 1, 1, 2, 2, 61],
         [Received (notification ''ticker.ETH-PERPETUAL.100ms'' (JObj [])),
          Received (notification ''ticker.ETH-PERPETUAL.100ms'' (JObj []))]))"

theorem stress_total_is_order_independent_sum_witness:
  "all_ended (snd (stress_test 2 60 new_tester two_feeds [0, 0, 0, 1, 1, 1, 1]))
   \<and> all_ended (snd (stress_test 2 60 new_tester two_feeds [1, 0, 1, 0, 1, 0, 1]))
   \<and> total_messages (fst (stress_test 2 60 new_tester two_feeds [0, 0, 0, 1, 1, 1, 1])) =
       sum_list (map connection_messages
         (snd (stress_test 2 60 new_tester two_feeds [0, 0, 0, 1, 1, 1, 1])))
   \<and> map connection_messages (snd (stress_test 2 60 new_tester two_feeds [1, 0, 1, 0, 1, 0, 1])) =
       map connection_messages (snd (stress_test 2 60 new_tester two_feeds [0, 0, 0, 1, 1, 1, 1]))
   \<and> total_messages (fst (stress_test 2 60 new_tester two_feeds [1, 0, 1, 0, 1, 0, 1])) =
       total_messages (fst (stress_test 2 60 new_tester two_feeds [0, 0, 0, 1, 1, 1, 1]))
   \<and> map connection_messages (snd (stress_test 2 60 new_tester two_feeds [1, 0, 1, 0, 1, 0, 1])) =
       [1, 2]
   \<and> total_messages (fst (stress_test 2 60 new_tester two_feeds [1, 0, 1, 0, 1, 0, 1])) = 3"
proof -
  have a: "all_ended (snd (stress_test 2 60 new_tester two_feeds [0, 0, 0, 1, 1, 1, 1]))"
    by code_simp
  have b: "all_ended (snd (stress_test 2 60 new_tester two_feeds [1, 0, 1, 0, 1, 0, 1]))"
    by code_simp
  have c: "map connection_messages
      (snd (stress_test 2 60 new_tester two_feeds [1, 0, 1, 0, 1, 0, 1])) = [1, 2]"
    by code_simp
  have d: "total_messages (fst (stress_test 2 60 new_tester two_feeds [1, 0, 1, 0, 1, 0, 1])) = 3"
    by code_simp
  show ?thesis
    using stress_total_is_order_independent_sum [of 2 60 two_feeds "[0, 0, 0, 1, 1, 1, 1]"
      "fst (stress_test 2 60 new_tester two_feeds [0, 0, 0, 1, 1, 1, 1])"
      "snd (stress_test 2 60 new_tester two_feeds [0, 0, 0, 1, 1, 1, 1])"
      "[1, 0, 1, 0, 1, 0, 1]"
      "fst (stress_test 2 60 new_tester two_feeds [1, 0, 1, 0, 1, 0, 1])"
      "snd (stress_test 2 60 new_tester two_feeds [1, 0, 1, 0, 1, 0, 1])"] a b c d
    by simp
qed




section \<open>Properties of the reconnection test\<close>


















section \<open>Properties of the tick analysis\<close>








lemma set_dict_keys: "set (dict_keys cs) = set cs"
  by (induction cs) auto

lemma init_tick_data_has_channels:
  "list_all (\<lambda>ch. map_of (init_tick_data channels) ch \<noteq> None) channels"
proof -
  have "map_of (map (\<lambda>c. (c, [])) ks) ch \<noteq> (None :: tick_info list option)"
    if "ch \<in> set ks" for ch and ks :: "string list"
    using that by (induction ks) auto
  then show ?thesis
    by (simp add: list_all_iff init_tick_data_def set_dict_keys)
qed

text \<open>
  Collecting never adds or removes a key of \<^verbatim>\<open>tick_data\<close>: at every point of a run every
  subscribed channel has its list.
\<close>

lemma append_tick_keys:
  "append_tick ch info td = Inr td' \<Longrightarrow> map fst td' = map fst td"
  by (auto simp: append_tick_def split: if_splits)

lemma store_tick_keys:
  "store_tick chs chan info td = Inr td' \<Longrightarrow> map fst td' = map fst td"
  by (induction chs) (auto split: sum.splits if_splits dest: append_tick_keys)

lemma record_tick_keys:
  "record_tick str_len channels count msg rt td = Inr td' \<Longrightarrow> map fst td' = map fst td"
  by (auto simp: record_tick_def raising_Inr_iff split: if_splits dest: store_tick_keys)

lemma process_tick_keys:
  "map fst (fst (process_tick str_len channels msg rt (td, n))) = map fst td"
  by (auto simp: process_tick_def split: sum.splits dest: record_tick_keys)

lemma tick_loop_keys:
  "tick_loop str_len channels start duration state clk rs = Some state' \<Longrightarrow>
   map fst (fst state') = map fst (fst state)"
proof (induction str_len channels start duration state clk rs rule: tick_loop.induct)
  case (1 str_len channels start duration state rs)
  then show ?case by simp
next
  case (2 str_len channels start duration state t clk rs)
  show ?case
  proof (cases "t - start < real_of_int duration")
    case False
    with "2.prems" show ?thesis by simp
  next
    case True
    note running = this
    show ?thesis
    proof (cases rs)
      case Nil
      with "2.prems" running show ?thesis by simp
    next
      case (Cons r rs')
      show ?thesis
      proof (cases r)
        case TimedOut
        with "2.IH"(1) [OF running Cons] "2.prems" running Cons show ?thesis by simp
      next
        case Closed
        with "2.IH"(2) [OF running Cons] "2.prems" running Cons show ?thesis by simp
      next
        case Failed
        with "2.IH"(3) [OF running Cons] "2.prems" running Cons show ?thesis by simp
      next
        case Undecodable
        show ?thesis
        proof (cases clk)
          case Nil
          with "2.prems" running Cons Undecodable show ?thesis by simp
        next
          case clk: (Cons x clk')
          with "2.IH"(4) [OF running Cons Undecodable clk] "2.prems" running Cons Undecodable
          show ?thesis by simp
        qed
      next
        case (Received msg)
        show ?thesis
        proof (cases clk)
          case Nil
          with "2.prems" running Cons Received show ?thesis by simp
        next
          case clk: (Cons x clk')
          obtain td n where state: "state = (td, n)" by (cases state)
          from "2.prems" running Cons Received clk
          have "tick_loop str_len channels start duration
              (process_tick str_len channels msg x state) clk' rs' = Some state'"
            by simp
          from "2.IH"(5) [OF running Cons Received clk this]
          show ?thesis by (simp add: state process_tick_keys)
        qed
      qed
    qed
  qed
qed

lemma has_channels_iff:
  "list_all (\<lambda>ch. map_of td ch \<noteq> None) channels \<longleftrightarrow> set channels \<subseteq> set (map fst td)"
  by (auto simp: list_all_iff map_of_eq_None_iff)

lemma tick_loop_keeps_channels:
  assumes "tick_loop str_len channels start duration (init_tick_data channels, 0) clk rs =
      Some (td, n)"
  shows "list_all (\<lambda>ch. map_of td ch \<noteq> None) channels"
proof -
  from tick_loop_keys [OF assms] have "map fst td = map fst (init_tick_data channels)" by simp
  moreover from init_tick_data_has_channels [of channels]
  have "set channels \<subseteq> set (map fst (init_tick_data channels))"
    by (simp only: has_channels_iff)
  ultimately have "set channels \<subseteq> set (map fst td)" by simp
  then show ?thesis by (simp only: has_channels_iff)
qed

lemma collect_no_data:
  "collect (channel_report_of duration) (map (\<lambda>c. (c, [])) ks) = Inr (map NoDataReceived ks)"
  by (induction ks) (simp_all add: channel_report_of_def)

text \<open>
  When the duration is not 0, tick data in which every channel is empty is reported as
  one "no data" entry per channel, no tick and no overall summary.
\<close>

theorem analyze_empty_channels:
  "duration \<noteq> 0 \<Longrightarrow>
   analyze_tick_data (init_tick_data channels) duration =
     Inr \<lparr>ticks_received = 0, ticks_per_second = 0,
          channel_reports = map NoDataReceived (dict_keys channels),
          overall_performance = None\<rparr>"
proof -
  have a: "sum_list (map (\<lambda>(chan, ticks). length ticks) (map (\<lambda>c. (c, [])) ks)) = 0"
    for ks :: "string list"
    by (induction ks) simp_all
  have b: "concat (map (\<lambda>(chan, ticks). delays_of ticks) (map (\<lambda>c. (c, [])) ks)) = []"
    for ks :: "string list"
    by (induction ks) (simp_all add: delays_of_def List.map_filter_simps)
  assume "duration \<noteq> 0"
  then show ?thesis
    unfolding analyze_tick_data_def init_tick_data_def Let_def a b collect_no_data
    by (simp add: overall_of_def)
qed

theorem analyze_empty_channels_witness:
  "(60::int) \<noteq> 0
   \<and> analyze_tick_data
        (init_tick_data [''ticker.BTC-PERPETUAL.100ms'', ''book.BTC-PERPETUAL.100ms.10''])
        60 =
      Inr \<lparr>ticks_received = 0, ticks_per_second = 0,
           channel_reports =
             [NoDataReceived ''ticker.BTC-PERPETUAL.100ms'',
              NoDataReceived ''book.BTC-PERPETUAL.100ms.10''],
           overall_performance = None\<rparr>"
  using analyze_empty_channels [of 60
      "[''ticker.BTC-PERPETUAL.100ms'', ''book.BTC-PERPETUAL.100ms.10'']"]
  by simp



text \<open>
  Claim C8, at the input for which it fails. \<^verbatim>\<open>_analyze_tick_data\<close> divides the total
  number of ticks by the duration before it looks at any channel, so with a duration of 0
  it raises \<^verbatim>\<open>ZeroDivisionError\<close> whatever the tick data; a tick-analysis run of 0 seconds,
  whose channels are all empty, ends in that exception and reports nothing.
\<close>

theorem analyzer_raises_on_zero_duration:
  "analyze_tick_data tick_data 0 = Inl ZeroDivisionError
   \<and> tick_by_tick_delay_test str_len 0 [''ticker.BTC-PERPETUAL.100ms''] Connected [0, 0] rs =
       Some (Inl ZeroDivisionError)"
  by (simp add: analyze_tick_data_def tick_by_tick_delay_test_def)








end
